theory Spec2Isabelle
  imports Complex_Main "HOL-Library.AList"
begin

section \<open>Numbers and decimal rounding\<close>

text \<open>
  The Python code computes on \<^verbatim>\<open>float\<close> and \<^verbatim>\<open>int\<close> values and rounds through
  \<^verbatim>\<open>Decimal(str(x)).quantize(Decimal("0.01"), rounding=...)\<close>. Numbers are embedded as
  rationals (\<^typ>\<open>rat\<close>): the arithmetic is exact, every value is finite, and the rounding
  acts on the value itself. Binary rounding error of \<^verbatim>\<open>float\<close>, \<^verbatim>\<open>inf\<close>/\<^verbatim>\<open>nan\<close> and the
  28-digit precision of the decimal context are outside this embedding.
\<close>

text \<open>
  \<^verbatim>\<open>float(Decimal(str(x)).quantize(Decimal("0.01"), rounding=ROUND_HALF_UP))\<close>:
  the nearest multiple of 0.01, a tie going away from zero.
\<close>

definition quantize_half_up :: "rat \<Rightarrow> rat" where
  "quantize_half_up x = sgn x * of_int \<lfloor>\<bar>x\<bar> * 100 + 1 / 2\<rfloor> / 100"

text \<open>
  \<^verbatim>\<open>float(Decimal(str(x)).quantize(Decimal("0.01")))\<close>: no rounding mode is passed, so the
  decimal context's default applies, \<^verbatim>\<open>ROUND_HALF_EVEN\<close>: the nearest multiple of 0.01, a
  tie going to the multiple whose last digit is even.
\<close>

definition quantize_default :: "rat \<Rightarrow> rat" where
  "quantize_default x =
     (let n = \<lfloor>x * 100\<rfloor>; r = x * 100 - of_int n
      in of_int (if r < 1 / 2 then n
                 else if 1 / 2 < r then n + 1
                 else if even n then n else n + 1) / 100)"

text \<open>A value has at most two decimal places when a hundred times it is an integer.\<close>

definition two_places :: "rat \<Rightarrow> bool" where
  "two_places x \<longleftrightarrow> of_int \<lfloor>x * 100\<rfloor> = x * 100"



section \<open>Errors\<close>

text \<open>
  Every exception of the source is a value. \<^verbatim>\<open>ValueError\<close> carries its message;
  \<^verbatim>\<open>IndexError\<close> is what \<^verbatim>\<open>purchase_prices[-1]\<close> raises on an empty list.
\<close>

datatype error = ValueError string | IndexError

section \<open>Finance calculator (app/agent/tools/calculator.py)\<close>




section \<open>Data model\<close>

text \<open>
  A portfolio is the dictionary \<^verbatim>\<open>{asset_name: {"quantity": ..., "purchase_prices":
  [{"quantity": ..., "price": ...}, ...], "current_price": ...}}\<close>. Python dictionaries keep
  insertion order and the exporters iterate in that order, so a portfolio is an association
  list: \<^const>\<open>map_of\<close> reads a key, \<^const>\<open>AList.update\<close> overwrites it in place or appends
  it, \<^const>\<open>AList.delete\<close> removes it.
\<close>

record lot =
  lot_quantity :: rat
  price :: rat

record holding =
  quantity :: rat
  purchase_prices :: "lot list"
  current_price :: "rat option"

type_synonym portfolio = "(string \<times> holding) list"

section \<open>Storage (app/agent/memory.py)\<close>

text \<open>
  A user's record is a dictionary of which the code reads and writes the key
  \<^verbatim>\<open>"portfolio"\<close> only: it is modelled by the value under that key, \<open>None\<close> when the key
  is absent. The file \<^verbatim>\<open>memory.json\<close> is missing, or cannot be read or parsed, or holds
  a dictionary from user identifiers to records. A failure of the final write
  (\<^verbatim>\<open>IOError\<close> from the operating system) is not modelled.
\<close>

type_synonym memory = "portfolio option"

datatype memory_file = Missing | Unreadable | Stored "(string \<times> memory) list"

definition load_memory :: "string \<Rightarrow> memory_file \<Rightarrow> memory" where
  "load_memory user_id file =
     (case file of
        Missing \<Rightarrow> None
      | Unreadable \<Rightarrow> None
      | Stored all_data \<Rightarrow> (case map_of all_data user_id of None \<Rightarrow> None | Some d \<Rightarrow> d))"

definition save_memory :: "string \<Rightarrow> memory \<Rightarrow> memory_file \<Rightarrow> error + memory_file" where
  "save_memory user_id d file =
     (case file of
        Missing \<Rightarrow> Inr (Stored [(user_id, d)])
      | Unreadable \<Rightarrow> Inl (ValueError ''Failed to save memory'')
      | Stored all_data \<Rightarrow> Inr (Stored (AList.update user_id d all_data)))"

text \<open>\<^verbatim>\<open>memory.get("portfolio", {})\<close>\<close>

definition get_portfolio_key :: "memory \<Rightarrow> portfolio" where
  "get_portfolio_key m = (case m of None \<Rightarrow> [] | Some p \<Rightarrow> p)"

section \<open>Ledger (app/agent/tools/portfolio_manager.py)\<close>

text \<open>
  Each operation takes the file and returns the portfolio together with the file as it is
  afterwards, or the exception raised.
\<close>

definition add_asset ::
  "string \<Rightarrow> string \<Rightarrow> rat \<Rightarrow> rat \<Rightarrow> memory_file \<Rightarrow> error + (portfolio \<times> memory_file)" where
  "add_asset user_id asset_name qty purchase_price file =
     (if user_id = [] then Inl (ValueError ''User ID must be a non-empty string'')
      else if asset_name = [] then Inl (ValueError ''Asset name must be a non-empty string'')
      else if qty \<le> 0 then Inl (ValueError ''Quantity must be positive'')
      else if purchase_price < 0 then Inl (ValueError ''Purchase price cannot be negative'')
      else
        let pf = get_portfolio_key (load_memory user_id file);
            new_lot = \<lparr>lot_quantity = qty, price = quantize_half_up purchase_price\<rparr>;
            pf' = (case map_of pf asset_name of
                     Some h \<Rightarrow>
                       AList.update asset_name
                         (h\<lparr>quantity := quantity h + quantize_half_up qty,
                            purchase_prices := purchase_prices h @ [new_lot]\<rparr>) pf
                   | None \<Rightarrow>
                       AList.update asset_name
                         \<lparr>quantity = quantize_half_up qty,
                          purchase_prices = [new_lot],
                          current_price = None\<rparr> pf)
        in case save_memory user_id (Some pf') file of
             Inl e \<Rightarrow> Inl e
           | Inr file' \<Rightarrow> Inr (pf', file'))"

definition remove_asset ::
  "string \<Rightarrow> string \<Rightarrow> memory_file \<Rightarrow> error + (portfolio \<times> memory_file)" where
  "remove_asset user_id asset_name file =
     (if user_id = [] then Inl (ValueError ''User ID must be a non-empty string'')
      else if asset_name = [] then Inl (ValueError ''Asset name must be a non-empty string'')
      else
        let pf = get_portfolio_key (load_memory user_id file)
        in case map_of pf asset_name of
             Some h \<Rightarrow>
               (case save_memory user_id (Some (AList.delete asset_name pf)) file of
                  Inl e \<Rightarrow> Inl e
                | Inr file' \<Rightarrow> Inr (AList.delete asset_name pf, file'))
           | None \<Rightarrow> Inr (pf, file))"

definition get_portfolio :: "string \<Rightarrow> memory_file \<Rightarrow> error + portfolio" where
  "get_portfolio user_id file =
     (if user_id = [] then Inl (ValueError ''User ID must be a non-empty string'')
      else Inr (get_portfolio_key (load_memory user_id file)))"


section \<open>Exporters (app/agent/tools/exporter.py)\<close>

text \<open>
  Both exporters compute, for each entry \<^verbatim>\<open>details\<close> of the portfolio, the local
  variables \<^verbatim>\<open>price\<close> and \<^verbatim>\<open>value\<close> by the same two expressions.
  \<^verbatim>\<open>purchase_prices[-1]\<close> raises \<^verbatim>\<open>IndexError\<close> on an empty list.
\<close>

definition row_price :: "holding \<Rightarrow> error + rat" where
  "row_price details =
     (case current_price details of
        Some c \<Rightarrow> Inr c
      | None \<Rightarrow>
          (if purchase_prices details = [] then Inl IndexError
           else Inr (price (last (purchase_prices details)))))"

definition row_value :: "holding \<Rightarrow> error + rat" where
  "row_value details =
     (case row_price details of
        Inl e \<Rightarrow> Inl e
      | Inr p \<Rightarrow> Inr (quantize_default (quantity details * p)))"

record table_row =
  Asset :: string
  Quantity :: rat
  Price :: rat
  Value :: rat

definition EXPORT_PATH :: string where
  "EXPORT_PATH = ''app/data/exports''"

text \<open>The loop that fills \<^verbatim>\<open>data\<close> in \<^verbatim>\<open>export_portfolio_csv\<close>.\<close>

fun csv_data :: "portfolio \<Rightarrow> error + table_row list" where
  "csv_data [] = Inr []"
| "csv_data ((asset_name, details) # rest) =
     (case row_price details of
        Inl e \<Rightarrow> Inl e
      | Inr p \<Rightarrow>
          (case row_value details of
             Inl e \<Rightarrow> Inl e
           | Inr v \<Rightarrow>
               (case csv_data rest of
                  Inl e \<Rightarrow> Inl e
                | Inr rows \<Rightarrow>
                    Inr (\<lparr>Asset = asset_name, Quantity = quantity details,
                          Price = p, Value = v\<rparr> # rows))))"

text \<open>
  The result is \<open>None\<close> for an empty portfolio, and otherwise the returned path together
  with the rows written to that file. An \<^verbatim>\<open>OSError\<close> of the write is not modelled.
\<close>

definition export_portfolio_csv ::
  "string \<Rightarrow> portfolio \<Rightarrow> error + (string \<times> table_row list) option" where
  "export_portfolio_csv user_id pf =
     (if user_id = [] then Inl (ValueError ''User ID must be a non-empty string'')
      else if pf = [] then Inr None
      else case csv_data pf of
             Inl e \<Rightarrow> Inl e
           | Inr rows \<Rightarrow> Inr (Some (EXPORT_PATH @ ''/'' @ user_id @ ''_portfolio.csv'', rows)))"

text \<open>
  The loop that fills \<^verbatim>\<open>table_data\<close> and sums \<^verbatim>\<open>total_value\<close> in
  \<^verbatim>\<open>export_portfolio_pdf\<close>. The cells are kept as numbers; the source prints them with
  \<^verbatim>\<open>:.2f\<close>.
\<close>

fun pdf_table_data :: "portfolio \<Rightarrow> rat \<Rightarrow> error + (table_row list \<times> rat)" where
  "pdf_table_data [] total_value = Inr ([], total_value)"
| "pdf_table_data ((asset_name, details) # rest) total_value =
     (case row_price details of
        Inl e \<Rightarrow> Inl e
      | Inr p \<Rightarrow>
          (case row_value details of
             Inl e \<Rightarrow> Inl e
           | Inr v \<Rightarrow>
               (case pdf_table_data rest (total_value + v) of
                  Inl e \<Rightarrow> Inl e
                | Inr (rows, total_value') \<Rightarrow>
                    Inr (\<lparr>Asset = asset_name, Quantity = quantity details,
                          Price = p, Value = v\<rparr> # rows, total_value'))))"

definition export_portfolio_pdf ::
  "string \<Rightarrow> portfolio \<Rightarrow> error + (string \<times> table_row list \<times> rat) option" where
  "export_portfolio_pdf user_id pf =
     (if user_id = [] then Inl (ValueError ''User ID must be a non-empty string'')
      else if pf = [] then Inr None
      else case pdf_table_data pf 0 of
             Inl e \<Rightarrow> Inl e
           | Inr (rows, total_value') \<Rightarrow>
               Inr (Some (EXPORT_PATH @ ''/'' @ user_id @ ''_portfolio.pdf'', rows, total_value')))"

section \<open>Portfolio return on investment\<close>




section \<open>Predicates on the stored data\<close>






section \<open>Decimal rounding: lemmas\<close>


lemma two_places_of_int: "two_places (of_int k / 100)"
  by (simp add: two_places_def)


lemma quantize_half_up_pos:
  assumes "0 \<le> x"
  shows "quantize_half_up x = of_int \<lfloor>x * 100 + 1 / 2\<rfloor> / 100"
proof (cases "x = 0")
  case True
  have "\<lfloor>(1::rat) / 2\<rfloor> = 0" by linarith
  then show ?thesis using True by (simp add: quantize_half_up_def)
next
  case False
  then show ?thesis using assms by (simp add: quantize_half_up_def)
qed

lemma quantize_half_up_neg:
  "x < 0 \<Longrightarrow> quantize_half_up x = - (of_int \<lfloor>- x * 100 + 1 / 2\<rfloor> / 100)"
  by (simp add: quantize_half_up_def)

lemma two_places_quantize_half_up: "two_places (quantize_half_up x)"
proof (cases "0 \<le> x")
  case True
  then show ?thesis by (simp add: quantize_half_up_pos two_places_of_int)
next
  case False
  then have "quantize_half_up x = of_int (- \<lfloor>- x * 100 + 1 / 2\<rfloor>) / 100"
    by (simp add: quantize_half_up_neg)
  then show ?thesis by (simp only: two_places_of_int)
qed

lemma quantize_half_up_fixed:
  assumes "two_places x"
  shows "quantize_half_up x = x"
proof -
  from assms obtain k :: int where k: "x * 100 = of_int k"
    unfolding two_places_def by metis
  show ?thesis
  proof (cases "0 \<le> x")
    case True
    have "\<lfloor>x * 100 + 1 / 2\<rfloor> = k" unfolding k by linarith
    then show ?thesis using True k by (simp add: quantize_half_up_pos)
  next
    case False
    have "- x * 100 = of_int (- k)" using k by simp
    then have "\<lfloor>- x * 100 + 1 / 2\<rfloor> = - k" by linarith
    then show ?thesis using False k by (simp add: quantize_half_up_neg)
  qed
qed

text \<open>A stored value has two decimal places exactly when half-up rounding leaves it as it is.\<close>

lemma two_places_eq: "two_places x \<longleftrightarrow> quantize_half_up x = x"
  by (metis quantize_half_up_fixed two_places_quantize_half_up)





section \<open>Finance calculator: theorems\<close>



section \<open>Investment simulation\<close>


lemma length_upto_0: "0 \<le> years \<Longrightarrow> length [0..years] = nat (years + 1)"
  by simp



section \<open>Storage: lemmas\<close>

lemma load_after_save:
  "save_memory user_id d file = Inr file' \<Longrightarrow> load_memory user_id file' = d"
  by (cases "file") (auto simp: save_memory_def load_memory_def update_conv')

lemma load_other_after_save:
  "save_memory user_id d file = Inr file' \<Longrightarrow> other \<noteq> user_id \<Longrightarrow>
   load_memory other file' = load_memory other file"
  by (cases "file") (auto simp: save_memory_def load_memory_def update_conv')

lemma save_memory_succeeds:
  "file \<noteq> Unreadable \<Longrightarrow> \<exists>file'. save_memory user_id d file = Inr file'"
  by (cases "file") (simp_all add: save_memory_def)

lemma save_memory_fails:
  "save_memory user_id d Unreadable = Inl (ValueError ''Failed to save memory'')"
  by (simp add: save_memory_def)

lemma present_is_readable:
  "map_of (get_portfolio_key (load_memory user_id file)) asset_name = Some h \<Longrightarrow>
   file \<noteq> Unreadable"
  by (auto simp: load_memory_def get_portfolio_key_def)

lemma get_portfolio_key_Some: "get_portfolio_key (Some pf) = pf"
  by (simp add: get_portfolio_key_def)

section \<open>Ledger: lemmas\<close>

lemma add_asset_valid:
  assumes "user_id \<noteq> []" "asset_name \<noteq> []" "0 < qty" "0 \<le> purchase_price"
    and "save_memory user_id (Some pf') file = Inr file'"
    and "pf' = (case map_of (get_portfolio_key (load_memory user_id file)) asset_name of
                     Some h \<Rightarrow>
                       AList.update asset_name
                         (h\<lparr>quantity := quantity h + quantize_half_up qty,
                            purchase_prices := purchase_prices h @
                              [\<lparr>lot_quantity = qty, price = quantize_half_up purchase_price\<rparr>]\<rparr>)
                         (get_portfolio_key (load_memory user_id file))
                   | None \<Rightarrow>
                       AList.update asset_name
                         \<lparr>quantity = quantize_half_up qty,
                          purchase_prices =
                            [\<lparr>lot_quantity = qty, price = quantize_half_up purchase_price\<rparr>],
                          current_price = None\<rparr>
                         (get_portfolio_key (load_memory user_id file)))"
  shows "add_asset user_id asset_name qty purchase_price file = Inr (pf', file')"
  using assms by (simp add: add_asset_def Let_def)

lemma add_asset_existing:
  assumes v: "user_id \<noteq> []" "asset_name \<noteq> []" "0 < qty" "0 \<le> purchase_price"
    and h: "map_of (get_portfolio_key (load_memory user_id file)) asset_name = Some h"
  shows "\<exists>file'. add_asset user_id asset_name qty purchase_price file =
           Inr (AList.update asset_name
                  (h\<lparr>quantity := quantity h + quantize_half_up qty,
                     purchase_prices := purchase_prices h @
                       [\<lparr>lot_quantity = qty, price = quantize_half_up purchase_price\<rparr>]\<rparr>)
                  (get_portfolio_key (load_memory user_id file)), file')
         \<and> get_portfolio user_id file' =
             Inr (AList.update asset_name
                  (h\<lparr>quantity := quantity h + quantize_half_up qty,
                     purchase_prices := purchase_prices h @
                       [\<lparr>lot_quantity = qty, price = quantize_half_up purchase_price\<rparr>]\<rparr>)
                  (get_portfolio_key (load_memory user_id file)))
         \<and> (\<forall>other. other \<noteq> user_id \<longrightarrow> load_memory other file' = load_memory other file)"
proof -
  let ?pf' = "AList.update asset_name
                  (h\<lparr>quantity := quantity h + quantize_half_up qty,
                     purchase_prices := purchase_prices h @
                       [\<lparr>lot_quantity = qty, price = quantize_half_up purchase_price\<rparr>]\<rparr>)
                  (get_portfolio_key (load_memory user_id file))"
  from h have "file \<noteq> Unreadable" by (rule present_is_readable)
  then obtain file' where s: "save_memory user_id (Some ?pf') file = Inr file'"
    using save_memory_succeeds by blast
  have a: "add_asset user_id asset_name qty purchase_price file = Inr (?pf', file')"
    using v s h by (simp add: add_asset_valid)
  have g: "get_portfolio user_id file' = Inr ?pf'"
    using v load_after_save [OF s] by (simp add: get_portfolio_def get_portfolio_key_Some)
  have o: "\<forall>other. other \<noteq> user_id \<longrightarrow> load_memory other file' = load_memory other file"
    using load_other_after_save [OF s] by blast
  show ?thesis using a g o by blast
qed






section \<open>Frame of an addition\<close>

lemma update_present_keys:
  "map_of al k = Some v \<Longrightarrow> map fst (AList.update k w al) = map fst al"
  by (induction al) (auto split: if_splits)

text \<open>
  Claim C9. With valid arguments, \<^const>\<open>add_asset\<close> on an asset that the user's portfolio
  already holds leaves the holding's current price and the lots recorded before as they
  were and appends exactly one lot; every other asset of the portfolio keeps its holding,
  the assets keep their order, and the records of the other users are not touched.
\<close>

theorem add_asset_frame:
  "user_id \<noteq> [] \<and> asset_name \<noteq> [] \<and> 0 < qty \<and> 0 \<le> purchase_price
     \<and> map_of (get_portfolio_key (load_memory user_id file)) asset_name = Some h \<longrightarrow>
   (\<exists>pf' file' h'. add_asset user_id asset_name qty purchase_price file = Inr (pf', file')
      \<and> map_of pf' asset_name = Some h'
      \<and> current_price h' = current_price h
      \<and> length (purchase_prices h') = length (purchase_prices h) + 1
      \<and> take (length (purchase_prices h)) (purchase_prices h') = purchase_prices h
      \<and> (\<forall>other. other \<noteq> asset_name \<longrightarrow>
            map_of pf' other = map_of (get_portfolio_key (load_memory user_id file)) other)
      \<and> map fst pf' = map fst (get_portfolio_key (load_memory user_id file))
      \<and> (\<forall>other. other \<noteq> user_id \<longrightarrow> load_memory other file' = load_memory other file))"
proof (intro impI)
  assume a: "user_id \<noteq> [] \<and> asset_name \<noteq> [] \<and> 0 < qty \<and> 0 \<le> purchase_price
     \<and> map_of (get_portfolio_key (load_memory user_id file)) asset_name = Some h"
  define pf where "pf = get_portfolio_key (load_memory user_id file)"
  define h' where "h' = h\<lparr>quantity := quantity h + quantize_half_up qty,
                     purchase_prices := purchase_prices h @
                       [\<lparr>lot_quantity = qty, price = quantize_half_up purchase_price\<rparr>]\<rparr>"
  from a have m: "map_of pf asset_name = Some h" by (simp add: pf_def)
  from a have "\<exists>file'. add_asset user_id asset_name qty purchase_price file =
           Inr (AList.update asset_name h' pf, file')
         \<and> get_portfolio user_id file' = Inr (AList.update asset_name h' pf)
         \<and> (\<forall>other. other \<noteq> user_id \<longrightarrow> load_memory other file' = load_memory other file)"
    unfolding pf_def h'_def by (intro add_asset_existing) simp_all
  then obtain file' where
    r: "add_asset user_id asset_name qty purchase_price file =
           Inr (AList.update asset_name h' pf, file')"
    and o: "\<forall>other. other \<noteq> user_id \<longrightarrow> load_memory other file' = load_memory other file"
    by blast
  have 1: "map_of (AList.update asset_name h' pf) asset_name = Some h'"
    by (simp add: update_conv')
  have 2: "current_price h' = current_price h" by (simp add: h'_def)
  have 3: "length (purchase_prices h') = length (purchase_prices h) + 1"
    by (simp add: h'_def)
  have 4: "take (length (purchase_prices h)) (purchase_prices h') = purchase_prices h"
    by (simp add: h'_def)
  have 5: "\<forall>other. other \<noteq> asset_name \<longrightarrow>
      map_of (AList.update asset_name h' pf) other = map_of pf other"
    by (simp add: update_conv')
  have 6: "map fst (AList.update asset_name h' pf) = map fst pf"
    using m by (rule update_present_keys)
  show "\<exists>pf' file' h'. add_asset user_id asset_name qty purchase_price file = Inr (pf', file')
      \<and> map_of pf' asset_name = Some h'
      \<and> current_price h' = current_price h
      \<and> length (purchase_prices h') = length (purchase_prices h) + 1
      \<and> take (length (purchase_prices h)) (purchase_prices h') = purchase_prices h
      \<and> (\<forall>other. other \<noteq> asset_name \<longrightarrow>
            map_of pf' other = map_of (get_portfolio_key (load_memory user_id file)) other)
      \<and> map fst pf' = map fst (get_portfolio_key (load_memory user_id file))
      \<and> (\<forall>other. other \<noteq> user_id \<longrightarrow> load_memory other file' = load_memory other file)"
    unfolding pf_def [symmetric]
    using r o 1 2 3 4 5 6 by blast
qed

theorem add_asset_frame_witness:
  "''u'' \<noteq> [] \<and> ''ETH'' \<noteq> [] \<and> 0 < (1 :: rat) \<and> 0 \<le> (2100 :: rat)
   \<and> map_of (get_portfolio_key (load_memory ''u'' (Stored [(''u'', Some [(''ETH'', \<lparr>quantity = 5, purchase_prices = [\<lparr>lot_quantity = 5, price = 2000\<rparr>], current_price = Some 2200\<rparr>), (''BTC'', \<lparr>quantity = 2, purchase_prices = [\<lparr>lot_quantity = 2, price = 30000\<rparr>], current_price = None\<rparr>)])]))) ''ETH'' = Some \<lparr>quantity = 5, purchase_prices = [\<lparr>lot_quantity = 5, price = 2000\<rparr>], current_price = Some 2200\<rparr>
   \<and> (\<exists>pf' file' h'. add_asset ''u'' ''ETH'' 1 2100 (Stored [(''u'', Some [(''ETH'', \<lparr>quantity = 5, purchase_prices = [\<lparr>lot_quantity = 5, price = 2000\<rparr>], current_price = Some 2200\<rparr>), (''BTC'', \<lparr>quantity = 2, purchase_prices = [\<lparr>lot_quantity = 2, price = 30000\<rparr>], current_price = None\<rparr>)])]) = Inr (pf', file')
         \<and> map_of pf' ''ETH'' = Some h'
         \<and> current_price h' = Some 2200
         \<and> length (purchase_prices h') = 2
         \<and> take 1 (purchase_prices h') = [\<lparr>lot_quantity = 5, price = 2000\<rparr>]
         \<and> map_of pf' ''BTC'' = Some \<lparr>quantity = 2, purchase_prices = [\<lparr>lot_quantity = 2, price = 30000\<rparr>], current_price = None\<rparr>
         \<and> map fst pf' = [''ETH'', ''BTC''])"
proof -
  define u where "u = ''u''"
  define eth where "eth = ''ETH''"
  define btc where "btc = ''BTC''"
  define he where "he = \<lparr>quantity = 5, purchase_prices = [\<lparr>lot_quantity = 5, price = 2000\<rparr>], current_price = Some 2200\<rparr>"
  define hb where "hb = \<lparr>quantity = 2, purchase_prices = [\<lparr>lot_quantity = 2, price = 30000\<rparr>], current_price = None\<rparr>"
  define f where "f = Stored [(u, Some [(eth, he), (btc, hb)])]"
  have n: "btc \<noteq> eth" by (simp add: btc_def eth_def)
  have v: "u \<noteq> [] \<and> eth \<noteq> [] \<and> 0 < (1 :: rat) \<and> 0 \<le> (2100 :: rat)"
    by (simp add: u_def eth_def)
  have k: "get_portfolio_key (load_memory u f) = [(eth, he), (btc, hb)]"
    by (simp add: load_memory_def get_portfolio_key_def f_def)
  have h: "map_of (get_portfolio_key (load_memory u f)) eth = Some he"
    by (simp add: k)
  have hyp: "u \<noteq> [] \<and> eth \<noteq> [] \<and> 0 < (1 :: rat) \<and> 0 \<le> (2100 :: rat)
     \<and> map_of (get_portfolio_key (load_memory u f)) eth = Some he"
    using v h by (intro conjI) simp_all
  note ex = mp [OF add_asset_frame [of u eth 1 2100 f he] hyp]
  from ex obtain pf' file' h' where r: "add_asset u eth 1 2100 f = Inr (pf', file')"
    and 1: "map_of pf' eth = Some h'"
    and 2: "current_price h' = current_price he"
    and 3: "length (purchase_prices h') = length (purchase_prices he) + 1"
    and 4: "take (length (purchase_prices he)) (purchase_prices h') = purchase_prices he"
    and 5: "\<forall>other. other \<noteq> eth \<longrightarrow>
            map_of pf' other = map_of (get_portfolio_key (load_memory u f)) other"
    and 6: "map fst pf' = map fst (get_portfolio_key (load_memory u f))"
    by blast
  from 5 n have 7: "map_of pf' btc = map_of (get_portfolio_key (load_memory u f)) btc"
    by blast
  have c2: "current_price h' = Some 2200" using 2 by (simp add: he_def)
  have c3: "length (purchase_prices h') = 2" using 3 by (simp add: he_def)
  have c4: "take 1 (purchase_prices h') = [\<lparr>lot_quantity = 5, price = 2000\<rparr>]"
    using 4 by (simp add: he_def)
  have c5: "map_of pf' btc = Some hb" using 7 n by (simp add: k)
  have c6: "map fst pf' = [eth, btc]" using 6 by (simp add: k)
  have e: "\<exists>pf' file' h'. add_asset u eth 1 2100 f = Inr (pf', file')
         \<and> map_of pf' eth = Some h'
         \<and> current_price h' = Some 2200
         \<and> length (purchase_prices h') = 2
         \<and> take 1 (purchase_prices h') = [\<lparr>lot_quantity = 5, price = 2000\<rparr>]
         \<and> map_of pf' btc = Some hb
         \<and> map fst pf' = [eth, btc]"
    by (rule exI [of _ pf'], rule exI [of _ file'], rule exI [of _ h'])
       (simp only: r 1 c2 c3 c4 c5 c6 simp_thms)
  have "u \<noteq> [] \<and> eth \<noteq> [] \<and> 0 < (1 :: rat) \<and> 0 \<le> (2100 :: rat)
   \<and> map_of (get_portfolio_key (load_memory u f)) eth = Some he
   \<and> (\<exists>pf' file' h'. add_asset u eth 1 2100 f = Inr (pf', file')
         \<and> map_of pf' eth = Some h'
         \<and> current_price h' = Some 2200
         \<and> length (purchase_prices h') = 2
         \<and> take 1 (purchase_prices h') = [\<lparr>lot_quantity = 5, price = 2000\<rparr>]
         \<and> map_of pf' btc = Some hb
         \<and> map fst pf' = [eth, btc])"
    using hyp e by (simp only: simp_thms)
  then show ?thesis
    unfolding f_def he_def hb_def u_def eth_def btc_def .
qed

section \<open>Removal\<close>

lemma remove_asset_present:
  assumes v: "user_id \<noteq> []" "asset_name \<noteq> []"
    and h: "map_of (get_portfolio_key (load_memory user_id file)) asset_name = Some h"
  shows "\<exists>file'. remove_asset user_id asset_name file =
           Inr (AList.delete asset_name (get_portfolio_key (load_memory user_id file)), file')
         \<and> get_portfolio user_id file' =
             Inr (AList.delete asset_name (get_portfolio_key (load_memory user_id file)))
         \<and> (\<forall>other. other \<noteq> user_id \<longrightarrow> load_memory other file' = load_memory other file)"
proof -
  let ?pf' = "AList.delete asset_name (get_portfolio_key (load_memory user_id file))"
  from h have "file \<noteq> Unreadable" by (rule present_is_readable)
  then obtain file' where s: "save_memory user_id (Some ?pf') file = Inr file'"
    using save_memory_succeeds by blast
  have a: "remove_asset user_id asset_name file = Inr (?pf', file')"
    using v s h by (simp add: remove_asset_def Let_def)
  have g: "get_portfolio user_id file' = Inr ?pf'"
    using v load_after_save [OF s] by (simp add: get_portfolio_def get_portfolio_key_Some)
  have o: "\<forall>other. other \<noteq> user_id \<longrightarrow> load_memory other file' = load_memory other file"
    using load_other_after_save [OF s] by blast
  show ?thesis using a g o by blast
qed

lemma remove_asset_absent:
  assumes "user_id \<noteq> []" "asset_name \<noteq> []"
    and "map_of (get_portfolio_key (load_memory user_id file)) asset_name = None"
  shows "remove_asset user_id asset_name file =
           Inr (get_portfolio_key (load_memory user_id file), file)"
  using assms by (simp add: remove_asset_def Let_def)

lemma delete_absent: "map_of al k = None \<Longrightarrow> AList.delete k al = al"
  by (induction al) (auto split: if_splits)

lemma remove_asset_error_iff:
  "isl (remove_asset user_id asset_name file) \<longleftrightarrow> user_id = [] \<or> asset_name = []"
proof (cases "user_id = [] \<or> asset_name = []")
  case True
  then show ?thesis by (auto simp: remove_asset_def)
next
  case False
  show ?thesis
  proof (cases "map_of (get_portfolio_key (load_memory user_id file)) asset_name")
    case None
    then show ?thesis using False remove_asset_absent [of user_id asset_name "file"] by simp
  next
    case (Some h)
    then show ?thesis using False remove_asset_present [of user_id asset_name "file" h] by auto
  qed
qed

text \<open>
  Claim C7. With a non-empty user identifier and asset name, \<^const>\<open>remove_asset\<close> on an
  asset that the portfolio holds deletes the holding with all its lots, persists the
  portfolio and returns it; the other assets keep their holdings. On an asset that the
  portfolio does not hold it returns the portfolio and leaves the file as it is. In both
  cases \<^const>\<open>get_portfolio\<close> for the same user afterwards returns the portfolio that was
  returned, and this portfolio does not contain the asset. \<^const>\<open>remove_asset\<close> raises
  \<^verbatim>\<open>ValueError\<close> when the user identifier or the asset name is empty, and only then.
\<close>

theorem remove_asset_correct:
  "(user_id \<noteq> [] \<and> asset_name \<noteq> []
      \<and> map_of (get_portfolio_key (load_memory user_id file)) asset_name = Some h \<longrightarrow>
      (\<exists>file'. remove_asset user_id asset_name file =
             Inr (AList.delete asset_name (get_portfolio_key (load_memory user_id file)), file')
         \<and> load_memory user_id file' =
             Some (AList.delete asset_name (get_portfolio_key (load_memory user_id file)))))
   \<and> (user_id \<noteq> [] \<and> asset_name \<noteq> []
      \<and> map_of (get_portfolio_key (load_memory user_id file)) asset_name = None \<longrightarrow>
      remove_asset user_id asset_name file =
        Inr (get_portfolio_key (load_memory user_id file), file))
   \<and> (user_id \<noteq> [] \<and> asset_name \<noteq> [] \<longrightarrow>
      (\<exists>pf' file'. remove_asset user_id asset_name file = Inr (pf', file')
         \<and> get_portfolio user_id file' = Inr pf'
         \<and> map_of pf' asset_name = None
         \<and> asset_name \<notin> set (map fst pf')
         \<and> (\<forall>other. other \<noteq> asset_name \<longrightarrow>
               map_of pf' other = map_of (get_portfolio_key (load_memory user_id file)) other)))
   \<and> (user_id = [] \<or> asset_name = [] \<longrightarrow>
        (\<exists>msg. remove_asset user_id asset_name file = Inl (ValueError msg)))
   \<and> (isl (remove_asset user_id asset_name file) \<longleftrightarrow> user_id = [] \<or> asset_name = [])"
proof -
  define pf where "pf = get_portfolio_key (load_memory user_id file)"
  have p: "\<exists>file'. remove_asset user_id asset_name file = Inr (AList.delete asset_name pf, file')
         \<and> load_memory user_id file' = Some (AList.delete asset_name pf)"
    if "user_id \<noteq> [] \<and> asset_name \<noteq> [] \<and> map_of pf asset_name = Some h"
  proof -
    from that have "file \<noteq> Unreadable"
      unfolding pf_def using present_is_readable by blast
    then obtain file' where s: "save_memory user_id (Some (AList.delete asset_name pf)) file = Inr file'"
      using save_memory_succeeds by blast
    have "remove_asset user_id asset_name file = Inr (AList.delete asset_name pf, file')"
      using that s by (simp add: remove_asset_def Let_def pf_def)
    then show ?thesis using load_after_save [OF s] by blast
  qed
  have a: "remove_asset user_id asset_name file = Inr (pf, file)"
    if "user_id \<noteq> [] \<and> asset_name \<noteq> [] \<and> map_of pf asset_name = None"
    using that unfolding pf_def by (simp add: remove_asset_absent)
  have g: "\<exists>pf' file'. remove_asset user_id asset_name file = Inr (pf', file')
         \<and> get_portfolio user_id file' = Inr pf'
         \<and> map_of pf' asset_name = None
         \<and> asset_name \<notin> set (map fst pf')
         \<and> (\<forall>other. other \<noteq> asset_name \<longrightarrow> map_of pf' other = map_of pf other)"
    if v: "user_id \<noteq> [] \<and> asset_name \<noteq> []"
  proof (cases "map_of pf asset_name")
    case None
    have 1: "remove_asset user_id asset_name file = Inr (pf, file)" using a v None by simp
    have 2: "get_portfolio user_id file = Inr pf" using v by (simp add: get_portfolio_def pf_def)
    have 3: "asset_name \<notin> set (map fst pf)" using None by (simp add: map_of_eq_None_iff)
    show ?thesis using 1 2 3 None by blast
  next
    case (Some h')
    from remove_asset_present [of user_id asset_name "file" h'] v Some
    obtain file' where 1: "remove_asset user_id asset_name file = Inr (AList.delete asset_name pf, file')"
      and 2: "get_portfolio user_id file' = Inr (AList.delete asset_name pf)"
      unfolding pf_def by blast
    have 3: "map_of (AList.delete asset_name pf) asset_name = None"
      by (simp add: delete_conv')
    have 4: "asset_name \<notin> set (map fst (AList.delete asset_name pf))"
      using 3 by (simp add: map_of_eq_None_iff)
    have 5: "\<forall>other. other \<noteq> asset_name \<longrightarrow>
        map_of (AList.delete asset_name pf) other = map_of pf other"
      by (simp add: delete_conv')
    show ?thesis using 1 2 3 4 5 by blast
  qed
  have e: "\<exists>msg. remove_asset user_id asset_name file = Inl (ValueError msg)"
    if "user_id = [] \<or> asset_name = []"
    using that by (auto simp: remove_asset_def)
  note i = remove_asset_error_iff [of user_id asset_name "file"]
  show ?thesis
    unfolding pf_def [symmetric]
    apply (intro conjI impI)
    subgoal using p by blast
    subgoal using a by blast
    subgoal using g by blast
    subgoal using e by blast
    subgoal by (rule i)
    done
qed

theorem remove_asset_correct_witness:
  "''u'' \<noteq> [] \<and> ''BTC'' \<noteq> [] \<and> ''XRP'' \<noteq> []
   \<and> map_of (get_portfolio_key (load_memory ''u'' (Stored [(''u'', Some [(''ETH'', \<lparr>quantity = 5, purchase_prices = [\<lparr>lot_quantity = 5, price = 2000\<rparr>], current_price = Some 2200\<rparr>), (''BTC'', \<lparr>quantity = 2, purchase_prices = [\<lparr>lot_quantity = 2, price = 30000\<rparr>], current_price = None\<rparr>)])]))) ''BTC'' = Some \<lparr>quantity = 2, purchase_prices = [\<lparr>lot_quantity = 2, price = 30000\<rparr>], current_price = None\<rparr>
   \<and> map_of (get_portfolio_key (load_memory ''u'' (Stored [(''u'', Some [(''ETH'', \<lparr>quantity = 5, purchase_prices = [\<lparr>lot_quantity = 5, price = 2000\<rparr>], current_price = Some 2200\<rparr>), (''BTC'', \<lparr>quantity = 2, purchase_prices = [\<lparr>lot_quantity = 2, price = 30000\<rparr>], current_price = None\<rparr>)])]))) ''XRP'' = None
   \<and> remove_asset ''u'' ''BTC'' (Stored [(''u'', Some [(''ETH'', \<lparr>quantity = 5, purchase_prices = [\<lparr>lot_quantity = 5, price = 2000\<rparr>], current_price = Some 2200\<rparr>), (''BTC'', \<lparr>quantity = 2, purchase_prices = [\<lparr>lot_quantity = 2, price = 30000\<rparr>], current_price = None\<rparr>)])]) =
        Inr ([(''ETH'', \<lparr>quantity = 5, purchase_prices = [\<lparr>lot_quantity = 5, price = 2000\<rparr>], current_price = Some 2200\<rparr>)], Stored [(''u'', Some [(''ETH'', \<lparr>quantity = 5, purchase_prices = [\<lparr>lot_quantity = 5, price = 2000\<rparr>], current_price = Some 2200\<rparr>)])])
   \<and> remove_asset ''u'' ''XRP'' (Stored [(''u'', Some [(''ETH'', \<lparr>quantity = 5, purchase_prices = [\<lparr>lot_quantity = 5, price = 2000\<rparr>], current_price = Some 2200\<rparr>), (''BTC'', \<lparr>quantity = 2, purchase_prices = [\<lparr>lot_quantity = 2, price = 30000\<rparr>], current_price = None\<rparr>)])]) = Inr ([(''ETH'', \<lparr>quantity = 5, purchase_prices = [\<lparr>lot_quantity = 5, price = 2000\<rparr>], current_price = Some 2200\<rparr>), (''BTC'', \<lparr>quantity = 2, purchase_prices = [\<lparr>lot_quantity = 2, price = 30000\<rparr>], current_price = None\<rparr>)], (Stored [(''u'', Some [(''ETH'', \<lparr>quantity = 5, purchase_prices = [\<lparr>lot_quantity = 5, price = 2000\<rparr>], current_price = Some 2200\<rparr>), (''BTC'', \<lparr>quantity = 2, purchase_prices = [\<lparr>lot_quantity = 2, price = 30000\<rparr>], current_price = None\<rparr>)])]))
   \<and> (\<exists>pf' file'. remove_asset ''u'' ''BTC'' (Stored [(''u'', Some [(''ETH'', \<lparr>quantity = 5, purchase_prices = [\<lparr>lot_quantity = 5, price = 2000\<rparr>], current_price = Some 2200\<rparr>), (''BTC'', \<lparr>quantity = 2, purchase_prices = [\<lparr>lot_quantity = 2, price = 30000\<rparr>], current_price = None\<rparr>)])]) = Inr (pf', file')
         \<and> get_portfolio ''u'' file' = Inr pf' \<and> map_of pf' ''BTC'' = None)
   \<and> isl (remove_asset ''u'' [] (Stored [(''u'', Some [(''ETH'', \<lparr>quantity = 5, purchase_prices = [\<lparr>lot_quantity = 5, price = 2000\<rparr>], current_price = Some 2200\<rparr>), (''BTC'', \<lparr>quantity = 2, purchase_prices = [\<lparr>lot_quantity = 2, price = 30000\<rparr>], current_price = None\<rparr>)])]))"
proof -
  define u where "u = ''u''"
  define eth where "eth = ''ETH''"
  define btc where "btc = ''BTC''"
  define xrp where "xrp = ''XRP''"
  define he where "he = \<lparr>quantity = 5, purchase_prices = [\<lparr>lot_quantity = 5, price = 2000\<rparr>], current_price = Some 2200\<rparr>"
  define hb where "hb = \<lparr>quantity = 2, purchase_prices = [\<lparr>lot_quantity = 2, price = 30000\<rparr>], current_price = None\<rparr>"
  define f where "f = Stored [(u, Some [(eth, he), (btc, hb)])]"
  have n: "btc \<noteq> eth" "xrp \<noteq> eth" "xrp \<noteq> btc" "eth \<noteq> btc"
    by (simp_all add: btc_def eth_def xrp_def)
  have v: "u \<noteq> []" "btc \<noteq> []" "xrp \<noteq> []"
    by (simp_all add: u_def btc_def xrp_def)
  have k: "get_portfolio_key (load_memory u f) = [(eth, he), (btc, hb)]"
    by (simp add: load_memory_def get_portfolio_key_def f_def)
  have h1: "map_of (get_portfolio_key (load_memory u f)) btc = Some hb"
    using n by (simp add: k)
  have h2: "map_of (get_portfolio_key (load_memory u f)) xrp = None"
    using n by (simp add: k)
  note t1 = remove_asset_correct [of u btc f hb]
  note t2 = remove_asset_correct [of u xrp f hb]
  note t3 = remove_asset_correct [of u "[]" f hb]
  have s: "save_memory u (Some [(eth, he)]) f = Inr (Stored [(u, Some [(eth, he)])])"
    by (simp add: save_memory_def f_def)
  have c1: "remove_asset u btc f = Inr ([(eth, he)], Stored [(u, Some [(eth, he)])])"
    using v by (simp add: remove_asset_def Let_def k n s)
  have c2: "remove_asset u xrp f = Inr ([(eth, he), (btc, hb)], f)"
    using t2 v h2 by (simp add: k)
  have c3: "\<exists>pf' file'. remove_asset u btc f = Inr (pf', file')
         \<and> get_portfolio u file' = Inr pf' \<and> map_of pf' btc = None"
    using t1 v by blast
  have c4: "isl (remove_asset u [] f)" using t3 by simp
  have "u \<noteq> [] \<and> btc \<noteq> [] \<and> xrp \<noteq> []
   \<and> map_of (get_portfolio_key (load_memory u f)) btc = Some hb
   \<and> map_of (get_portfolio_key (load_memory u f)) xrp = None
   \<and> remove_asset u btc f = Inr ([(eth, he)], Stored [(u, Some [(eth, he)])])
   \<and> remove_asset u xrp f = Inr ([(eth, he), (btc, hb)], f)
   \<and> (\<exists>pf' file'. remove_asset u btc f = Inr (pf', file')
         \<and> get_portfolio u file' = Inr pf' \<and> map_of pf' btc = None)
   \<and> isl (remove_asset u [] f)"
    using v h1 h2 c1 c2 c3 c4 by (simp only: simp_thms)
  then show ?thesis
    unfolding f_def he_def hb_def u_def eth_def btc_def xrp_def .
qed

section \<open>Rounding of the stored values\<close>













section \<open>Banker's rounding: lemmas\<close>

lemma two_places_quantize_default: "two_places (quantize_default x)"
  by (simp add: quantize_default_def Let_def two_places_of_int)



section \<open>Exporters: lemmas\<close>


lemma row_value_error: "row_price h = Inl e \<Longrightarrow> row_value h = Inl e"
  by (simp add: row_value_def)





lemma csv_data_nonempty: "pf \<noteq> [] \<Longrightarrow> csv_data pf \<noteq> Inr []"
  by (cases pf) (auto split: sum.splits)



text \<open>
  Claim C8. For a non-empty user identifier and an empty portfolio, the CSV export and the
  PDF export both return \<open>None\<close> and raise nothing. For an empty user identifier both raise
  \<^verbatim>\<open>ValueError\<close>, whatever the portfolio. For a non-empty user identifier and a non-empty
  portfolio neither returns \<open>None\<close>.
\<close>

theorem export_empty_portfolio:
  "(user_id \<noteq> [] \<longrightarrow>
      export_portfolio_csv user_id [] = Inr None \<and> export_portfolio_pdf user_id [] = Inr None)
   \<and> export_portfolio_csv [] pf = Inl (ValueError ''User ID must be a non-empty string'')
   \<and> export_portfolio_pdf [] pf = Inl (ValueError ''User ID must be a non-empty string'')
   \<and> (user_id \<noteq> [] \<and> pf \<noteq> [] \<longrightarrow>
      export_portfolio_csv user_id pf \<noteq> Inr None \<and> export_portfolio_pdf user_id pf \<noteq> Inr None)"
proof -
  have 1: "export_portfolio_csv user_id [] = Inr None" if "user_id \<noteq> []"
    using that by (simp add: export_portfolio_csv_def)
  have 2: "export_portfolio_pdf user_id [] = Inr None" if "user_id \<noteq> []"
    using that by (simp add: export_portfolio_pdf_def)
  have 3: "export_portfolio_csv [] pf = Inl (ValueError ''User ID must be a non-empty string'')"
    by (simp add: export_portfolio_csv_def)
  have 4: "export_portfolio_pdf [] pf = Inl (ValueError ''User ID must be a non-empty string'')"
    by (simp add: export_portfolio_pdf_def)
  have 5: "export_portfolio_csv user_id pf \<noteq> Inr None" if "user_id \<noteq> [] \<and> pf \<noteq> []"
    using that by (simp add: export_portfolio_csv_def split: sum.splits)
  have 6: "export_portfolio_pdf user_id pf \<noteq> Inr None" if "user_id \<noteq> [] \<and> pf \<noteq> []"
    using that by (simp add: export_portfolio_pdf_def split: sum.splits prod.splits)
  show ?thesis using 1 2 3 4 5 6 by blast
qed

theorem export_empty_portfolio_witness:
  "''user1'' \<noteq> []
   \<and> [(''ETH'', \<lparr>quantity = 5, purchase_prices = [], current_price = Some 2\<rparr>)] \<noteq> []
   \<and> export_portfolio_csv ''user1'' [] = Inr None
   \<and> export_portfolio_pdf ''user1'' [] = Inr None
   \<and> export_portfolio_csv ''user1''
        [(''ETH'', \<lparr>quantity = 5, purchase_prices = [], current_price = Some 2\<rparr>)] \<noteq> Inr None
   \<and> export_portfolio_pdf ''user1''
        [(''ETH'', \<lparr>quantity = 5, purchase_prices = [], current_price = Some 2\<rparr>)] \<noteq> Inr None"
proof -
  define uid where "uid = ''user1''"
  define pf where "pf = [(''ETH'', \<lparr>quantity = 5, purchase_prices = [], current_price = Some 2\<rparr>)]"
  have u: "uid \<noteq> []" by (simp add: uid_def)
  have p: "pf \<noteq> []" by (simp add: pf_def)
  note t = export_empty_portfolio [of uid pf]
  have "uid \<noteq> [] \<and> pf \<noteq> []
   \<and> export_portfolio_csv uid [] = Inr None
   \<and> export_portfolio_pdf uid [] = Inr None
   \<and> export_portfolio_csv uid pf \<noteq> Inr None
   \<and> export_portfolio_pdf uid pf \<noteq> Inr None"
    using t u p by blast
  then show ?thesis unfolding uid_def pf_def .
qed



section \<open>Portfolio return on investment: theorems\<close>





end
